theory Spec2Isabelle
  imports Main "HOL-Library.Sublist"
begin

section \<open>Claimed identifiers and the user object (src/src/App.js, lines 278-347)\<close>

text \<open>
  A JavaScript string is modelled as \<^typ>\<open>string\<close>. The class \<^verbatim>\<open>\d\<close> of a
  regular expression without the unicode flag is the ten characters 0 to 9.
\<close>

definition is_digit :: "char \<Rightarrow> bool" where
  "is_digit c = (let n = (of_char c :: nat) in 48 \<le> n \<and> n \<le> 57)"

text \<open>
  \<^verbatim>\<open>/\d+$/\<close> tried at one fixed start position: the first character must be a
  digit, and after it the input either ends or goes on matching digits up to the end.
  A greedy run of digits that stops before the end cannot be repaired by giving digits
  back, so the attempt fails there.
\<close>

fun digits_to_end :: "string \<Rightarrow> bool" where
  "digits_to_end [] = False"
| "digits_to_end (c # cs) = (is_digit c \<and> (cs = [] \<or> digits_to_end cs))"

text \<open>
  \<^verbatim>\<open>identifier.match(/\d+$/)\<close>: the start positions are tried from left to right
  and the first that matches wins. The pattern has no groups, so the match array is
  represented by its element 0, the matched text; \<^verbatim>\<open>null\<close> is \<open>None\<close>.
\<close>

fun str_match :: "string \<Rightarrow> string option" where
  "str_match [] = None"
| "str_match (c # cs) = (if digits_to_end (c # cs) then Some (c # cs) else str_match cs)"

datatype js_error = TypeError

text \<open>
  \<^verbatim>\<open>m[0]\<close> on the result of \<^verbatim>\<open>match\<close>: reading a property of \<^verbatim>\<open>null\<close>
  throws a TypeError.
\<close>

fun index0 :: "string option \<Rightarrow> js_error + string" where
  "index0 None = Inl TypeError"
| "index0 (Some m) = Inr m"

record user =
  identifier' :: string
  steamId :: string

text \<open>
  The three ways a callback hands control back to passport (lines 290-293):
  \<^verbatim>\<open>done(err)\<close>, \<^verbatim>\<open>done(null, false)\<close> and \<^verbatim>\<open>done(null, value)\<close>.
\<close>

datatype 'a done_call = Done_err js_error | Done_false | Done_ok 'a

text \<open>
  The validate callback of the strategy (lines 278-296). Building the object literal
  throws when the match is \<^verbatim>\<open>null\<close>: \<open>Inl\<close> is an exception thrown before
  \<^verbatim>\<open>done\<close> is reached; otherwise the value is the call of \<^verbatim>\<open>done\<close>.
\<close>

definition validate :: "string \<Rightarrow> js_error + user done_call" where
  "validate identifier =
     (case index0 (str_match identifier) of
        Inl e \<Rightarrow> Inl e
      | Inr m \<Rightarrow> Inr (Done_ok \<lparr>identifier' = identifier, steamId = m\<rparr>))"

text \<open>\<^verbatim>\<open>passport.serializeUser\<close> callback (lines 323-325).\<close>

definition serializeUser :: "user \<Rightarrow> string done_call" where
  "serializeUser u = Done_ok (identifier' u)"

text \<open>\<^verbatim>\<open>passport.deserializeUser\<close> callback (lines 339-347).\<close>

definition deserializeUser :: "string \<Rightarrow> js_error + user done_call" where
  "deserializeUser identifier =
     (case index0 (str_match identifier) of
        Inl e \<Rightarrow> Inl e
      | Inr m \<Rightarrow> Inr (Done_ok \<lparr>identifier' = identifier, steamId = m\<rparr>))"


section \<open>Requests, sessions and responses\<close>

text \<open>
  A value of \<^verbatim>\<open>request.query\<close>, as the query-string parser of the web framework
  builds it: a string, an array or a nested object.
\<close>

datatype query_value =
    QStr string
  | QArr "query_value list"
  | QObj "(string \<times> query_value) list"

text \<open>
  \<^verbatim>\<open>if (request.query.steamid)\<close>: a missing property is \<^verbatim>\<open>undefined\<close> and
  falsy, the empty string is falsy, every other string and every array and object is
  truthy.
\<close>

fun truthy :: "query_value option \<Rightarrow> bool" where
  "truthy None = False"
| "truthy (Some (QStr s)) = (s \<noteq> [])"
| "truthy (Some (QArr vs)) = True"
| "truthy (Some (QObj kvs)) = True"

text \<open>
  \<^verbatim>\<open>a || b\<close> where \<open>a\<close> is a string or \<^verbatim>\<open>undefined\<close>: \<open>b\<close> is taken when
  \<open>a\<close> is \<^verbatim>\<open>undefined\<close> or the empty string.
\<close>

definition or_else :: "string option \<Rightarrow> string \<Rightarrow> string" where
  "or_else a b = (case a of None \<Rightarrow> b | Some s \<Rightarrow> if s = [] then b else s)"

text \<open>
  \<^verbatim>\<open>request.session.passport\<close>, when it exists, is the object in which passport
  keeps the key that \<^verbatim>\<open>serializeUser\<close> returned.
\<close>

datatype passport_data = Passport (passport_user: "string option")

record session =
  passport :: "passport_data option"

text \<open>
  The parts of a request the handlers read: \<^verbatim>\<open>request.user\<close>,
  \<^verbatim>\<open>request.session\<close>, \<^verbatim>\<open>request.get('Referer')\<close> and \<^verbatim>\<open>request.query\<close>
  (the parsed query object, as its list of properties; \<^verbatim>\<open>request.query.k\<close> is
  \<open>map_of (query request) k\<close>).
\<close>

record request =
  user :: "user option"
  session :: session
  get_Referer :: "string option"
  query :: "(string \<times> query_value) list"

datatype response = Redirect string | Send string

text \<open>The User Identity key a session holds, if any.\<close>

definition session_identity :: "session \<Rightarrow> string option" where
  "session_identity s = (case passport s of None \<Rightarrow> None | Some d \<Rightarrow> passport_user d)"

definition anonymous :: "request \<Rightarrow> bool" where
  "anonymous request = (user request = None \<and> session_identity (session request) = None)"

section \<open>Route handlers (lines 402-453)\<close>

text \<open>The handler function of \<^verbatim>\<open>GET /auth/openid/return\<close> (lines 403-409).\<close>

definition auth_openid_return_handler :: "request \<Rightarrow> response" where
  "auth_openid_return_handler request =
     (case user request of
        Some u \<Rightarrow> Redirect (''/?steamid='' @ steamId u)
      | None \<Rightarrow> Redirect ''/?failed'')"



text \<open>
  Modelled from the spec: \<^verbatim>\<open>request.logout()\<close> is a method passport adds to the
  request and is not part of the source. The spec (4.1, logout): it clears the session
  and always succeeds; the comment at lines 413-416 of the source says the same. The
  session cookie is not modelled.
\<close>

definition logout :: "request \<Rightarrow> request" where
  "logout request = request\<lparr>user := None, session := (session request)\<lparr>passport := None\<rparr>\<rparr>"

text \<open>The handler of \<^verbatim>\<open>POST /auth/logout\<close> (lines 421-426).\<close>

definition post_auth_logout :: "request \<Rightarrow> request \<times> response" where
  "post_auth_logout request =
     (let request' = logout request
      in (request', Redirect (or_else (get_Referer request') ''/'')))"


text \<open>
  \<^verbatim>\<open>JSON.stringify\<close> of a string: the quotation mark and the backslash are
  escaped with a backslash, the control characters below 0x20 by their short form or
  by \<^verbatim>\<open>\u00XX\<close> in lower-case hexadecimal; every other character stands for itself.
\<close>

definition hex_digit :: "nat \<Rightarrow> char" where
  "hex_digit n = (if n < 16 then ''0123456789abcdef'' ! n else CHR ''0'')"

definition json_escape :: "char \<Rightarrow> string" where
  "json_escape c =
     (let n = (of_char c :: nat) in
      if n = 8 then [CHR 0x5C, CHR ''b'']
      else if n = 9 then [CHR 0x5C, CHR ''t'']
      else if n = 10 then [CHR 0x5C, CHR ''n'']
      else if n = 12 then [CHR 0x5C, CHR ''f'']
      else if n = 13 then [CHR 0x5C, CHR ''r'']
      else if n = 34 then [CHR 0x5C, CHR 0x22]
      else if n = 92 then [CHR 0x5C, CHR 0x5C]
      else if n < 32 then
        [CHR 0x5C, CHR ''u'', CHR ''0'', CHR ''0'', hex_digit (n div 16), hex_digit (n mod 16)]
      else [c])"

definition json_quote :: "string \<Rightarrow> string" where
  "json_quote s = [CHR 0x22] @ concat (map json_escape s) @ [CHR 0x22]"

text \<open>\<^verbatim>\<open>JSON.stringify(request.user)\<close>: the two properties in creation order.\<close>

definition JSON_stringify :: "user \<Rightarrow> string" where
  "JSON_stringify u =
     ''{\"identifier\":'' @ json_quote (identifier' u) @
     '',\"steamId\":'' @ json_quote (steamId u) @ ''}''"

text \<open>
  The handler of \<^verbatim>\<open>GET /\<close> (lines 435-453): the body sent is the concatenation of
  the \<^verbatim>\<open>response.write\<close> calls, in order.
\<close>

definition get_root :: "request \<Rightarrow> response" where
  "get_root request =
     (let doctype = ''<!DOCTYPE html>'' in
      case user request of
        Some u \<Rightarrow>
          Send (doctype @
            (case passport (session request) of
               None \<Rightarrow> ''None''
             | Some d \<Rightarrow> or_else (Some (JSON_stringify u)) ''None'') @
            ''<form action=\"/auth/logout\" method=\"post\">'' @
            ''<input type=\"submit\" value=\"Log Out\"/></form>'')
      | None \<Rightarrow>
          Send (doctype @
            (if truthy (map_of (query request) ''steamid'') then ''Not logged in.'' else []) @
            ''<form action=\"/auth/openid\" method=\"post\">'' @
            (''<input name=\"submit\" type=\"image\" src=\"http://steamcommunity-a.'' @
             ''akamaihd.net/public/images/signinthroughsteam/sits_small.png\" '' @
             ''alt=\"Sign in through Steam\"/></form>'')))"

section \<open>The promise chain of the component (lines 27-43)\<close>

text \<open>
  The values the chain handles: \<^verbatim>\<open>undefined\<close>, numbers and promise objects. A
  promise is pending, fulfilled with a value or rejected with a reason.
\<close>

datatype js_value = Undefined | Num int | Prom promise
  and promise = Pending | Fulfilled js_value | Rejected js_value

text \<open>
  The two functions the constructor hands to the executor. Only a pending promise is
  settled: the first call wins. Resolving with a promise adopts that promise's state.
\<close>

definition resolve :: "js_value \<Rightarrow> promise \<Rightarrow> promise" where
  "resolve v p =
     (case p of
        Pending \<Rightarrow> (case v of Prom q \<Rightarrow> q | _ \<Rightarrow> Fulfilled v)
      | _ \<Rightarrow> p)"

definition reject :: "js_value \<Rightarrow> promise \<Rightarrow> promise" where
  "reject e p = (case p of Pending \<Rightarrow> Rejected e | _ \<Rightarrow> p)"

text \<open>
  \<^verbatim>\<open>new Promise(executor)\<close>: the executor runs at once, on a pending promise, with
  the two settling functions. An executor of this file keeps neither function, so a
  promise it leaves pending stays pending.
\<close>

definition new_Promise ::
  "((js_value \<Rightarrow> promise \<Rightarrow> promise) \<Rightarrow> (js_value \<Rightarrow> promise \<Rightarrow> promise)
     \<Rightarrow> promise \<Rightarrow> promise) \<Rightarrow> promise" where
  "new_Promise executor = executor resolve reject Pending"

text \<open>
  The console is the list of \<^verbatim>\<open>console.log\<close> calls made so far, each with its
  arguments. A callback takes the settled value and the console and gives back what
  it returns (\<open>Inr\<close>) or throws (\<open>Inl\<close>), and the console after it.
\<close>

type_synonym console = "js_value list list"

type_synonym callback = "js_value \<Rightarrow> console \<Rightarrow> (js_value + js_value) \<times> console"

definition console_log :: "js_value list \<Rightarrow> console \<Rightarrow> console" where
  "console_log args c = c @ [args]"

text \<open>
  \<^verbatim>\<open>p.then(f)\<close>: \<open>f\<close> runs only once \<open>p\<close> is fulfilled, with its value; the
  promise \<^verbatim>\<open>then\<close> returns is resolved with what \<open>f\<close> returns and rejected with
  what it throws. A rejection of \<open>p\<close> passes through, and \<open>f\<close> does not run.
  The callbacks of one chain run one after the other, each after the promise before it
  has settled, so the console is threaded through them in chain order.
\<close>

definition promise_then :: "promise \<Rightarrow> callback \<Rightarrow> console \<Rightarrow> promise \<times> console" where
  "promise_then p f c =
     (case p of
        Pending \<Rightarrow> (Pending, c)
      | Fulfilled v \<Rightarrow>
          (case f v c of
             (Inr r, c') \<Rightarrow> (resolve r Pending, c')
           | (Inl e, c') \<Rightarrow> (Rejected e, c'))
      | Rejected e \<Rightarrow> (Rejected e, c))"

text \<open>
  \<^verbatim>\<open>p.catch(g)\<close>: \<open>g\<close> runs only once \<open>p\<close> is rejected, with its reason; a
  fulfilled \<open>p\<close> passes through, and \<open>g\<close> does not run.
\<close>

definition promise_catch :: "promise \<Rightarrow> callback \<Rightarrow> console \<Rightarrow> promise \<times> console" where
  "promise_catch p g c =
     (case p of
        Pending \<Rightarrow> (Pending, c)
      | Fulfilled v \<Rightarrow> (Fulfilled v, c)
      | Rejected e \<Rightarrow>
          (case g e c of
             (Inr r, c') \<Rightarrow> (resolve r Pending, c')
           | (Inl e', c') \<Rightarrow> (Rejected e', c')))"

text \<open>The four promises \<^verbatim>\<open>doPromise\<close> constructs (lines 28-31).\<close>

definition doPromise_p1 :: promise where
  "doPromise_p1 = new_Promise (\<lambda>resolve reject. resolve (Num 1))"

definition doPromise_p2 :: promise where
  "doPromise_p2 = new_Promise (\<lambda>resolve reject. resolve (Num 2))"

definition doPromise_p3 :: promise where
  "doPromise_p3 = new_Promise (\<lambda>resolve reject. resolve (Num 3))"

definition doPromise_await :: promise where
  "doPromise_await = new_Promise (\<lambda>a b. a Undefined)"

text \<open>
  The three \<^verbatim>\<open>then\<close> steps (lines 32-40), the receiver of \<^verbatim>\<open>.catch\<close>, as a
  function of the four promises the callbacks close over.
\<close>

definition then_chain ::
  "promise \<Rightarrow> promise \<Rightarrow> promise \<Rightarrow> promise \<Rightarrow> console \<Rightarrow> promise \<times> console" where
  "then_chain p1 p2 p3 await c0 =
     (let (q1, c1) = promise_then p1 (\<lambda>v c. (Inr (Prom p2), console_log [v, Prom await] c)) c0;
          (q2, c2) = promise_then q1 (\<lambda>v c. (Inr (Prom p3), console_log [v] c)) c1
      in promise_then q2 (\<lambda>v c. (Inr Undefined, console_log [v] c)) c2)"

text \<open>The callback of \<^verbatim>\<open>.catch\<close> (lines 40-42).\<close>

definition on_error :: callback where
  "on_error err c = (Inr Undefined, console_log [err] c)"

text \<open>
  The whole chain with a given \<^verbatim>\<open>catch\<close> callback, and \<^verbatim>\<open>doPromise\<close> itself:
  the console once the chain has run, from the console \<open>c0\<close> before it.
\<close>

definition chain_with ::
  "callback \<Rightarrow> promise \<Rightarrow> promise \<Rightarrow> promise \<Rightarrow> promise \<Rightarrow> console \<Rightarrow> promise \<times> console" where
  "chain_with g p1 p2 p3 await c0 =
     (let (q3, c3) = then_chain p1 p2 p3 await c0 in promise_catch q3 g c3)"

definition doPromise :: "console \<Rightarrow> console" where
  "doPromise c0 =
     snd (chain_with on_error doPromise_p1 doPromise_p2 doPromise_p3 doPromise_await c0)"


section \<open>Notions of the specification\<close>

text \<open>
  The trailing numeric segment of a claimed identifier, in the words of the
  specification: the longest run of digits the string ends with.
\<close>

definition trailing_digits :: "string \<Rightarrow> string" where
  "trailing_digits s = rev (takeWhile is_digit (rev s))"

text \<open>A response whose body contains a text.\<close>

fun body_contains :: "string \<Rightarrow> response \<Rightarrow> bool" where
  "body_contains t (Send b) = sublist t b"
| "body_contains t (Redirect l) = False"


section \<open>The pattern match finds the trailing digits\<close>

text \<open>
  One attempt of the pattern succeeds exactly on a non-empty string of digits, and the
  search from the left returns the longest run of digits at the end of the string, or
  nothing when the string does not end in a digit.
\<close>

lemma digits_to_end_iff: "digits_to_end s \<longleftrightarrow> s \<noteq> [] \<and> list_all is_digit s"
  by (induction s) auto

lemma takeWhile_rev_append:
  "list_all P ds \<Longrightarrow> takeWhile P (rev ds @ ys) = rev ds @ takeWhile P ys"
  by (rule takeWhile_append2) (simp add: list_all_iff)

lemma trailing_digits_all: "list_all is_digit s \<Longrightarrow> trailing_digits s = s"
proof -
  assume "list_all is_digit s"
  then have "takeWhile is_digit (rev s) = rev s"
    by (simp add: list_all_iff)
  then show ?thesis
    by (simp only: trailing_digits_def rev_rev_ident)
qed

lemma trailing_digits_Cons:
  "\<not> list_all is_digit (c # cs) \<Longrightarrow> trailing_digits (c # cs) = trailing_digits cs"
proof -
  assume a: "\<not> list_all is_digit (c # cs)"
  show ?thesis
  proof (cases "list_all is_digit cs")
    case True
    with a have "\<not> is_digit c" by simp
    with True show ?thesis
      using takeWhile_rev_append [of is_digit cs "[c]"] trailing_digits_all [of cs]
      by (simp add: trailing_digits_def)
  next
    case False
    then obtain x where "x \<in> set (rev cs)" "\<not> is_digit x"
      by (auto simp: list_all_iff)
    then have "takeWhile is_digit (rev cs @ [c]) = takeWhile is_digit (rev cs)"
      by (rule takeWhile_append1)
    then show ?thesis
      by (simp add: trailing_digits_def)
  qed
qed

lemma str_match_trailing:
  "str_match s = (if trailing_digits s = [] then None else Some (trailing_digits s))"
proof (induction s)
  case Nil
  show ?case by (simp add: trailing_digits_def)
next
  case (Cons c cs)
  show ?case
  proof (cases "list_all is_digit (c # cs)")
    case True
    then have "digits_to_end (c # cs)" by (simp only: digits_to_end_iff) simp
    with True show ?thesis by (simp add: trailing_digits_all del: digits_to_end.simps list.pred_inject)
  next
    case False
    then have "\<not> digits_to_end (c # cs)" by (simp only: digits_to_end_iff) simp
    with False Cons show ?thesis by (simp add: trailing_digits_Cons del: digits_to_end.simps list.pred_inject)
  qed
qed

lemma trailing_digits_append:
  "\<not> is_digit x \<Longrightarrow> list_all is_digit ds \<Longrightarrow> trailing_digits (p @ x # ds) = ds"
  using takeWhile_rev_append [of is_digit ds "x # rev p"] by (simp add: trailing_digits_def)

lemma trailing_digits_Nil_iff: "trailing_digits s = [] \<longleftrightarrow> s = [] \<or> \<not> is_digit (last s)"
  by (cases s rule: rev_cases) (auto simp: trailing_digits_def)

lemma str_match_None_iff: "str_match s = None \<longleftrightarrow> s = [] \<or> \<not> is_digit (last s)"
  by (simp add: str_match_trailing trailing_digits_Nil_iff)

lemma slash_not_digit: "\<not> is_digit CHR ''/''"
  by (simp add: is_digit_def)

lemma str_match_prefix_slash_digits:
  "digits \<noteq> [] \<Longrightarrow> list_all is_digit digits \<Longrightarrow> str_match (pre @ ''/'' @ digits) = Some digits"
  using trailing_digits_append [OF slash_not_digit, of digits pre]
  by (simp add: str_match_trailing)

section \<open>Serializing and deserializing a User Identity\<close>

text \<open>
  C1. For every claimed identifier \<open>pre/digits\<close> with a non-empty run of digits:
  the validate callback derives a User Identity \<open>u\<close> from it, \<^verbatim>\<open>serializeUser\<close>
  gives a key for \<open>u\<close>, and \<^verbatim>\<open>deserializeUser\<close> on that key gives back the
  same \<open>u\<close>: the same identifier and the same numeric id, which is \<open>digits\<close>.
\<close>

theorem identity_roundtrip:
  assumes "digits \<noteq> []" and "list_all is_digit digits"
  shows "\<exists>u key. validate (pre @ ''/'' @ digits) = Inr (Done_ok u)
           \<and> serializeUser u = Done_ok key
           \<and> deserializeUser key = Inr (Done_ok u)
           \<and> identifier' u = pre @ ''/'' @ digits
           \<and> steamId u = digits"
proof -
  let ?ident = "pre @ ''/'' @ digits"
  let ?u = "\<lparr>identifier' = ?ident, steamId = digits\<rparr>"
  from assms have m: "str_match ?ident = Some digits"
    by (rule str_match_prefix_slash_digits)
  have "validate ?ident = Inr (Done_ok ?u)"
    by (simp only: validate_def m index0.simps sum.case)
  moreover have "serializeUser ?u = Done_ok ?ident"
    by (simp add: serializeUser_def)
  moreover have "deserializeUser ?ident = Inr (Done_ok ?u)"
    by (simp only: deserializeUser_def m index0.simps sum.case)
  ultimately show ?thesis by force
qed

text \<open>The theorem at the example identifier of the source (line 249).\<close>

theorem identity_roundtrip_witness:
  "''76561197975696140'' \<noteq> [] \<and> list_all is_digit ''76561197975696140'' \<and>
   (\<exists>u key. validate (''http://steamcommunity.com/openid/id'' @ ''/'' @ ''76561197975696140'') = Inr (Done_ok u)
      \<and> serializeUser u = Done_ok key
      \<and> deserializeUser key = Inr (Done_ok u)
      \<and> identifier' u = ''http://steamcommunity.com/openid/id'' @ ''/'' @ ''76561197975696140''
      \<and> steamId u = ''76561197975696140'')"
proof -
  have d: "list_all is_digit ''76561197975696140''"
    by (simp add: is_digit_def)
  have n: "''76561197975696140'' \<noteq> []"
    by simp
  from identity_roundtrip [OF n d, of "''http://steamcommunity.com/openid/id''"] n d
  show ?thesis by blast
qed

text \<open>
  C2. For every claimed identifier that is empty or does not end in a digit, deriving a
  User Identity fails: both the validate callback and \<^verbatim>\<open>deserializeUser\<close> throw
  before \<^verbatim>\<open>done\<close> is called. The exception is the TypeError of reading element 0
  of a \<^verbatim>\<open>null\<close> match, which is what the specification calls
  MalformedIdentifierError. It is neither \<^verbatim>\<open>done(null, false)\<close> nor
  \<^verbatim>\<open>done(err)\<close>, the two ways a login attempt is turned down.
\<close>

theorem no_trailing_digits_throws:
  assumes "identifier = [] \<or> \<not> is_digit (last identifier)"
  shows "validate identifier = Inl TypeError \<and> deserializeUser identifier = Inl TypeError"
proof -
  from assms have "str_match identifier = None"
    by (simp only: str_match_None_iff)
  then show ?thesis
    by (simp add: validate_def deserializeUser_def)
qed

text \<open>The theorem at the identifier of the specification's example.\<close>

theorem no_trailing_digits_throws_witness:
  "(''http://provider.example/openid/id/'' = [] \<or> \<not> is_digit (last ''http://provider.example/openid/id/''))
   \<and> validate ''http://provider.example/openid/id/'' = Inl TypeError
   \<and> deserializeUser ''http://provider.example/openid/id/'' = Inl TypeError"
proof -
  have h: "''http://provider.example/openid/id/'' = [] \<or> \<not> is_digit (last ''http://provider.example/openid/id/'')"
    by (simp add: is_digit_def)
  from no_trailing_digits_throws [OF h] h show ?thesis by blast
qed

text \<open>
  C10. For every claimed identifier that ends in a digit, the validate callback calls
  \<^verbatim>\<open>done(null, user)\<close> with a user object, whose numeric id is the non-empty run
  of trailing digits. It never calls \<^verbatim>\<open>done(null, false)\<close> or
  \<^verbatim>\<open>done(err)\<close> and never throws: no such identifier is turned down locally.
\<close>

theorem validate_accepts_numeric_suffix:
  assumes "identifier \<noteq> []" and "is_digit (last identifier)"
  shows "validate identifier =
           Inr (Done_ok \<lparr>identifier' = identifier, steamId = trailing_digits identifier\<rparr>)
         \<and> trailing_digits identifier \<noteq> []
         \<and> validate identifier \<noteq> Inr Done_false
         \<and> (\<forall>e. validate identifier \<noteq> Inr (Done_err e))
         \<and> (\<forall>e. validate identifier \<noteq> Inl e)"
proof -
  from assms have t: "trailing_digits identifier \<noteq> []"
    by (simp add: trailing_digits_Nil_iff)
  then have "str_match identifier = Some (trailing_digits identifier)"
    by (simp add: str_match_trailing)
  then have "validate identifier =
      Inr (Done_ok \<lparr>identifier' = identifier, steamId = trailing_digits identifier\<rparr>)"
    by (simp add: validate_def)
  with t show ?thesis by simp
qed

text \<open>The theorem at the example identifier of the source (line 249).\<close>

theorem validate_accepts_numeric_suffix_witness:
  "''http://steamcommunity.com/openid/id/76561197975696140'' \<noteq> []
   \<and> is_digit (last ''http://steamcommunity.com/openid/id/76561197975696140'')
   \<and> validate ''http://steamcommunity.com/openid/id/76561197975696140'' =
         Inr (Done_ok \<lparr>identifier' = ''http://steamcommunity.com/openid/id/76561197975696140'',
                steamId = trailing_digits ''http://steamcommunity.com/openid/id/76561197975696140''\<rparr>)
   \<and> trailing_digits ''http://steamcommunity.com/openid/id/76561197975696140'' \<noteq> []
   \<and> validate ''http://steamcommunity.com/openid/id/76561197975696140'' \<noteq> Inr Done_false"
proof -
  have n: "''http://steamcommunity.com/openid/id/76561197975696140'' \<noteq> []"
    by simp
  have d: "is_digit (last ''http://steamcommunity.com/openid/id/76561197975696140'')"
    by (simp add: is_digit_def)
  from validate_accepts_numeric_suffix [OF n d] n d show ?thesis by blast
qed

text \<open>
  C7. The claimed identifier of the specification's example yields the numeric id
  76561197975696140, and \<^verbatim>\<open>serializeUser\<close> hands back exactly the identifier
  field of any user object.
\<close>

theorem example_identifier_and_serialize:
  "validate ''http://provider.example/openid/id/76561197975696140'' =
     Inr (Done_ok \<lparr>identifier' = ''http://provider.example/openid/id/76561197975696140'',
            steamId = ''76561197975696140''\<rparr>)
   \<and> serializeUser u = Done_ok (identifier' u)"
  by (simp add: validate_def is_digit_def serializeUser_def)

section \<open>The provider's return\<close>

text \<open>
  A user object the validate callback has produced carries the trailing digits of the
  claimed identifier, and they are not empty.
\<close>

lemma validate_Done_ok_steamId:
  "validate identifier = Inr (Done_ok u) \<Longrightarrow> steamId u = trailing_digits identifier \<and> trailing_digits identifier \<noteq> []"
  by (auto simp: validate_def str_match_trailing split: if_splits)

text \<open>
  C3 as stated fails. For the user derived from the example identifier of the source,
  the handler does not redirect to \<^verbatim>\<open>/?id=76561197975696140\<close>.
\<close>

theorem return_redirect_id_counterexample:
  "validate ''http://steamcommunity.com/openid/id/76561197975696140'' =
     Inr (Done_ok \<lparr>identifier' = ''http://steamcommunity.com/openid/id/76561197975696140'',
            steamId = ''76561197975696140''\<rparr>)
   \<and> auth_openid_return_handler
        \<lparr>user = Some \<lparr>identifier' = ''http://steamcommunity.com/openid/id/76561197975696140'',
            steamId = ''76561197975696140''\<rparr>,
         session = \<lparr>passport = Some (Passport (Some ''http://steamcommunity.com/openid/id/76561197975696140''))\<rparr>,
         get_Referer = None, query = [(''openid.mode'', QStr ''id_res'')]\<rparr>
      \<noteq> Redirect ''/?id=76561197975696140''"
  by (simp add: validate_def is_digit_def auth_openid_return_handler_def)

text \<open>
  C3, amended. When \<^verbatim>\<open>request.user\<close> is the user object the validate callback
  produced for a claimed identifier, the handler of \<^verbatim>\<open>GET /auth/openid/return\<close>
  redirects to \<^verbatim>\<open>/?steamid=\<close> followed by the numeric id, the non-empty run of
  trailing digits of the claimed identifier.
\<close>

theorem return_redirects_with_steamid:
  assumes "validate identifier = Inr (Done_ok u)"
  shows "auth_openid_return_handler (request\<lparr>user := Some u\<rparr>) =
           Redirect (''/?steamid='' @ trailing_digits identifier)
         \<and> trailing_digits identifier \<noteq> []"
  using validate_Done_ok_steamId [OF assms]
  by (simp add: auth_openid_return_handler_def)

text \<open>The theorem at the example identifier of the source.\<close>

theorem return_redirects_with_steamid_witness:
  "validate ''http://steamcommunity.com/openid/id/76561197975696140'' =
     Inr (Done_ok \<lparr>identifier' = ''http://steamcommunity.com/openid/id/76561197975696140'',
            steamId = ''76561197975696140''\<rparr>)
   \<and> auth_openid_return_handler
        \<lparr>user = Some \<lparr>identifier' = ''http://steamcommunity.com/openid/id/76561197975696140'',
            steamId = ''76561197975696140''\<rparr>,
         session = \<lparr>passport = Some (Passport (Some ''http://steamcommunity.com/openid/id/76561197975696140''))\<rparr>,
         get_Referer = None, query = [(''openid.mode'', QStr ''id_res'')]\<rparr> =
      Redirect ''/?steamid=76561197975696140''"
proof -
  have v: "validate ''http://steamcommunity.com/openid/id/76561197975696140'' =
     Inr (Done_ok \<lparr>identifier' = ''http://steamcommunity.com/openid/id/76561197975696140'',
            steamId = ''76561197975696140''\<rparr>)"
    by (simp add: validate_def is_digit_def)
  have t: "trailing_digits ''http://steamcommunity.com/openid/id/76561197975696140'' = ''76561197975696140''"
    by (simp add: trailing_digits_def is_digit_def)
  from return_redirects_with_steamid [OF v,
    of "\<lparr>user = None,
         session = \<lparr>passport = Some (Passport (Some ''http://steamcommunity.com/openid/id/76561197975696140''))\<rparr>,
         get_Referer = None, query = [(''openid.mode'', QStr ''id_res'')]\<rparr>"] v t
  show ?thesis by simp
qed




section \<open>Logging out\<close>

text \<open>
  C5 as stated fails. A Referer header that is present with an empty value is falsy,
  and the redirect goes to the site root, not to the header's value.
\<close>

theorem logout_empty_referer_counterexample:
  "get_Referer \<lparr>user = None, session = \<lparr>passport = None\<rparr>, get_Referer = Some '''', query = []\<rparr> = Some ''''
   \<and> snd (post_auth_logout \<lparr>user = None, session = \<lparr>passport = None\<rparr>, get_Referer = Some '''', query = []\<rparr>)
       = Redirect ''/''
   \<and> snd (post_auth_logout \<lparr>user = None, session = \<lparr>passport = None\<rparr>, get_Referer = Some '''', query = []\<rparr>)
       \<noteq> Redirect ''''"
  by (simp add: post_auth_logout_def logout_def or_else_def)

text \<open>
  C5, amended. From every request, authenticated or anonymous, the handler of
  \<^verbatim>\<open>POST /auth/logout\<close> returns, the request it leaves behind is anonymous, and
  it redirects to the value of the Referer header when that header is present and not
  empty, otherwise (header absent or empty) to the site root.
\<close>

theorem logout_anonymous_and_redirect:
  "anonymous (fst (post_auth_logout request))
   \<and> snd (post_auth_logout request) =
       Redirect (case get_Referer request of
                   None \<Rightarrow> ''/''
                 | Some r \<Rightarrow> if r = [] then ''/'' else r)"
  by (simp add: post_auth_logout_def logout_def or_else_def anonymous_def session_identity_def
      split: option.split)

section \<open>The promise chain\<close>

text \<open>
  Each of the four executors resolves its promise at once; the three \<^verbatim>\<open>then\<close>
  callbacks therefore all run, in chain order, and the promise \<^verbatim>\<open>.catch\<close> is called
  on is fulfilled.
\<close>

lemma doPromise_promises:
  "doPromise_p1 = Fulfilled (Num 1)" "doPromise_p2 = Fulfilled (Num 2)"
  "doPromise_p3 = Fulfilled (Num 3)" "doPromise_await = Fulfilled Undefined"
  by (simp_all add: doPromise_p1_def doPromise_p2_def doPromise_p3_def doPromise_await_def
      new_Promise_def resolve_def)

lemma then_chain_fulfilled:
  "then_chain (Fulfilled (Num 1)) (Fulfilled (Num 2)) (Fulfilled (Num 3)) w c0 =
     (Fulfilled Undefined, c0 @ [[Num 1, Prom w], [Num 2], [Num 3]])"
  by (simp add: then_chain_def promise_then_def resolve_def console_log_def)

lemma chain_with_fulfilled:
  "chain_with g (Fulfilled (Num 1)) (Fulfilled (Num 2)) (Fulfilled (Num 3)) w c0 =
     (Fulfilled Undefined, c0 @ [[Num 1, Prom w], [Num 2], [Num 3]])"
  by (simp add: chain_with_def then_chain_fulfilled promise_catch_def)

text \<open>
  C6. \<^verbatim>\<open>doPromise\<close> adds exactly three calls of \<^verbatim>\<open>console.log\<close> to the
  console, with first arguments 1, 2 and 3 in this order; the first call also shows
  the fourth promise. The order is the same whatever the state \<open>w\<close> of that fourth
  promise.
\<close>

theorem doPromise_logs_in_order:
  "doPromise c0 = c0 @ [[Num 1, Prom (Fulfilled Undefined)], [Num 2], [Num 3]]
   \<and> map hd (snd (chain_with on_error doPromise_p1 doPromise_p2 doPromise_p3 w [])) =
       [Num 1, Num 2, Num 3]"
  by (simp add: doPromise_def doPromise_promises chain_with_fulfilled)

text \<open>
  C8. The four promises \<^verbatim>\<open>doPromise\<close> constructs are all fulfilled, none is
  rejected; the promise \<^verbatim>\<open>.catch\<close> is called on is fulfilled, so the chain gives
  the same result with any other callback \<open>g\<close> in place of the error callback, which
  never runs: the console grows by the three calls of the \<^verbatim>\<open>then\<close> callbacks and
  by nothing else.
\<close>

theorem doPromise_catch_unreachable:
  "doPromise_p1 = Fulfilled (Num 1) \<and> doPromise_p2 = Fulfilled (Num 2)
   \<and> doPromise_p3 = Fulfilled (Num 3) \<and> doPromise_await = Fulfilled Undefined
   \<and> fst (then_chain doPromise_p1 doPromise_p2 doPromise_p3 doPromise_await c0) = Fulfilled Undefined
   \<and> chain_with g doPromise_p1 doPromise_p2 doPromise_p3 doPromise_await c0 =
       chain_with on_error doPromise_p1 doPromise_p2 doPromise_p3 doPromise_await c0
   \<and> length (doPromise c0) = length c0 + 3"
  by (simp add: doPromise_def doPromise_promises chain_with_fulfilled then_chain_fulfilled)

section \<open>The page\<close>

text \<open>The body of \<^verbatim>\<open>GET /\<close> when no user is logged in.\<close>

lemma get_root_anonymous:
  "user request = None \<Longrightarrow>
   get_root request =
     Send (''<!DOCTYPE html>'' @
       (if truthy (map_of (query request) ''steamid'') then ''Not logged in.'' else []) @
       ''<form action=\"/auth/openid\" method=\"post\">'' @
       ''<input name=\"submit\" type=\"image\" src=\"http://steamcommunity-a.'' @
       ''akamaihd.net/public/images/signinthroughsteam/sits_small.png\" '' @
       ''alt=\"Sign in through Steam\"/></form>'')"
  by (simp add: get_root_def)

text \<open>
  C9 as stated fails. With no user and the query string \<^verbatim>\<open>steamid=\<close>, the query
  has a steamid parameter, whose value is the empty string, and the body does not
  contain the text \<^verbatim>\<open>Not logged in.\<close>
\<close>

theorem root_empty_steamid_counterexample:
  "user \<lparr>user = None, session = \<lparr>passport = None\<rparr>, get_Referer = None,
      query = [(''steamid'', QStr '''')]\<rparr> = None
   \<and> map_of (query \<lparr>user = None, session = \<lparr>passport = None\<rparr>, get_Referer = None,
      query = [(''steamid'', QStr '''')]\<rparr>) ''steamid'' = Some (QStr '''')
   \<and> \<not> body_contains ''Not logged in.''
        (get_root \<lparr>user = None, session = \<lparr>passport = None\<rparr>, get_Referer = None,
           query = [(''steamid'', QStr '''')]\<rparr>)"
  by (simp add: get_root_def sublist_code)

text \<open>
  C9, amended. For every request to \<^verbatim>\<open>GET /\<close> with no authenticated user, the
  body contains the text \<^verbatim>\<open>Not logged in.\<close> if and only if the steamid parameter
  of the query is present with a truthy value (anything but the empty string); the
  login form is in the body in either case.
\<close>

theorem root_anonymous_not_logged_in:
  assumes "user request = None"
  shows "body_contains ''Not logged in.'' (get_root request) =
           truthy (map_of (query request) ''steamid'')
         \<and> body_contains
             (''<form action=\"/auth/openid\" method=\"post\">'' @
              ''<input name=\"submit\" type=\"image\" src=\"http://steamcommunity-a.'' @
              ''akamaihd.net/public/images/signinthroughsteam/sits_small.png\" '' @
              ''alt=\"Sign in through Steam\"/></form>'')
             (get_root request)"
proof (cases "truthy (map_of (query request) ''steamid'')")
  case True
  with assms show ?thesis
    by (simp add: get_root_anonymous sublist_code)
next
  case False
  with assms show ?thesis
    by (simp add: get_root_anonymous sublist_code)
qed

text \<open>The theorem at a request that carries a steam id in its query.\<close>

theorem root_anonymous_not_logged_in_witness:
  "user \<lparr>user = None, session = \<lparr>passport = None\<rparr>, get_Referer = None,
      query = [(''steamid'', QStr ''76561197975696140'')]\<rparr> = None
   \<and> body_contains ''Not logged in.''
        (get_root \<lparr>user = None, session = \<lparr>passport = None\<rparr>, get_Referer = None,
           query = [(''steamid'', QStr ''76561197975696140'')]\<rparr>)"
proof -
  let ?request = "\<lparr>user = None, session = \<lparr>passport = None\<rparr>, get_Referer = None,
      query = [(''steamid'', QStr ''76561197975696140'')]\<rparr>"
  have u: "user ?request = None"
    by simp
  from root_anonymous_not_logged_in [OF u] u show ?thesis
    by simp
qed

end
